theory Spec2Isabelle
  imports Complex_Main "HOL-Library.Word"
begin

section \<open>Data model\<close>

text \<open>
  Go byte slices and Go strings are both sequences of bytes; \<open>string(b)\<close> and
  \<open>[]byte(s)\<close> keep every byte. Both are modelled as lists of \<^typ>\<open>char\<close>
  (an Isabelle character is one byte).
\<close>

type_synonym bytes = "char list"

subsection \<open>The log sink (zap)\<close>

datatype Level = DebugLevel | InfoLevel | WarnLevel | ErrorLevel | DPanicLevel | PanicLevel | FatalLevel

text \<open>The field types of \<open>zapcore\<close>, in the order of its declaration.\<close>

datatype FieldType =
    UnknownType | ArrayMarshalerType | ObjectMarshalerType | BinaryType | BoolType
  | ByteStringType | Complex128Type | Complex64Type | DurationType | Float64Type
  | Float32Type | Int64Type | Int32Type | Int16Type | Int8Type | StringType | TimeType
  | TimeFullType | Uint64Type | Uint32Type | Uint16Type | Uint8Type | UintptrType
  | ReflectType | NamespaceType | StringerType | ErrorType | SkipType | InlineMarshalerType

text \<open>
  The \<open>Interface\<close> component of a field holds an arbitrary Go value. The model keeps
  the three kinds the middleware meets: nothing, an error (\<open>zap.Error\<close>), and an opaque
  value named by a label (a reflected value, a time zone).
\<close>

datatype iface = NilIface | ErrorIface string | OpaqueIface string

record Field =
  Key :: string
  Type :: FieldType
  Integer :: "64 word"
  String :: string
  Interface :: iface

definition zap_String :: "string \<Rightarrow> string \<Rightarrow> Field" where
  "zap_String k v = \<lparr>Key = k, Type = StringType, Integer = 0, String = v, Interface = NilIface\<rparr>"

definition zap_Int64 :: "string \<Rightarrow> 64 word \<Rightarrow> Field" where
  "zap_Int64 k v = \<lparr>Key = k, Type = Int64Type, Integer = v, String = [], Interface = NilIface\<rparr>"

text \<open>\<open>zap.Int\<close> is \<open>zap.Int64\<close> of the converted value; Go's \<open>int\<close> has 64 bits here.\<close>

definition zap_Int :: "string \<Rightarrow> int \<Rightarrow> Field" where
  "zap_Int k v = zap_Int64 k (word_of_int v)"














definition zap_Error :: "string \<Rightarrow> Field" where
  "zap_Error e = \<lparr>Key = ''error'', Type = ErrorType, Integer = 0, String = [], Interface = ErrorIface e\<rparr>"

record Entry =
  entry_level :: Level
  entry_message :: string
  entry_fields :: "Field list"

definition log_Error :: "string \<Rightarrow> Field list \<Rightarrow> Entry" where
  "log_Error m fs = \<lparr>entry_level = ErrorLevel, entry_message = m, entry_fields = fs\<rparr>"

definition log_Warn :: "string \<Rightarrow> Field list \<Rightarrow> Entry" where
  "log_Warn m fs = \<lparr>entry_level = WarnLevel, entry_message = m, entry_fields = fs\<rparr>"

definition log_Info :: "string \<Rightarrow> Field list \<Rightarrow> Entry" where
  "log_Info m fs = \<lparr>entry_level = InfoLevel, entry_message = m, entry_fields = fs\<rparr>"

subsection \<open>Headers, body streams, trace spans and the Go context\<close>

text \<open>
  \<open>http.Header\<close> is \<open>map[string][]string\<close>; a key that is absent has no values.
  \<open>Get\<close> returns the first value of a key, or the empty string. The keys the code uses
  are already in canonical form.
\<close>

type_synonym header = "string \<Rightarrow> string list"

definition Get :: "header \<Rightarrow> string \<Rightarrow> string" where
  "Get h k = (case h k of [] \<Rightarrow> [] | v # _ \<Rightarrow> v)"

definition HeaderXRequestID :: string where
  "HeaderXRequestID = ''X-Request-Id''"

text \<open>
  A body stream (\<open>io.ReadCloser\<close>): the chunks its next \<open>Read\<close> calls deliver, and the
  error it returns once they are used up, \<open>io.EOF\<close> for a stream that ends well.
\<close>

definition EOF :: string where
  "EOF = ''EOF''"

datatype ReadCloser = ReadCloser (pending: "bytes list") (final: string)

text \<open>
  \<open>io.ReadAll\<close>: read until an error, collecting what was read; \<open>io.EOF\<close> is the end of
  the data and is not reported. The result is the data, the error if any, and the stream
  as the calls leave it.
\<close>

fun ReadAll_loop :: "bytes \<Rightarrow> bytes list \<Rightarrow> string \<Rightarrow> (bytes \<times> string option) \<times> ReadCloser" where
  "ReadAll_loop b [] e = ((b, if e = EOF then None else Some e), ReadCloser [] e)"
| "ReadAll_loop b (chunk # cs) e = ReadAll_loop (b @ chunk) cs e"

definition ReadAll :: "ReadCloser \<Rightarrow> (bytes \<times> string option) \<times> ReadCloser" where
  "ReadAll r = ReadAll_loop [] (pending r) (final r)"

text \<open>\<open>io.NopCloser(bytes.NewBuffer(b))\<close>: a stream over \<open>b\<close> that ends with \<open>io.EOF\<close>.\<close>

definition NewBuffer :: "bytes \<Rightarrow> ReadCloser" where
  "NewBuffer b = ReadCloser (if b = [] then [] else [b]) EOF"

text \<open>
  A span context of OpenTelemetry: a trace ID of 16 bytes and a span ID of 8 bytes, read
  as big-endian words. It is valid when neither is zero, and an ID prints as lower-case
  hexadecimal, two digits a byte.
\<close>

record SpanContext =
  TraceID :: "128 word"
  SpanID :: "64 word"

definition IsValid :: "SpanContext \<Rightarrow> bool" where
  "IsValid sc = (TraceID sc \<noteq> 0 \<and> SpanID sc \<noteq> 0)"

definition hexdigit :: "nat \<Rightarrow> char" where
  "hexdigit n = ''0123456789abcdef'' ! n"

definition hex_String :: "nat \<Rightarrow> 'a::len word \<Rightarrow> string" where
  "hex_String k w = map (\<lambda>i. hexdigit (unat (take_bit 4 (drop_bit (4 * (k - 1 - i)) w)))) [0..<k]"

definition TraceID_String :: "128 word \<Rightarrow> string" where
  "TraceID_String t = hex_String 32 t"

definition SpanID_String :: "64 word \<Rightarrow> string" where
  "SpanID_String t = hex_String 16 t"

record Span =
  span_SpanContext :: SpanContext
  span_recording :: bool
  span_attributes :: "(string \<times> string) list"

definition SetAttributes :: "(string \<times> string) list \<Rightarrow> Span \<Rightarrow> Span" where
  "SetAttributes kv sp =
     (if span_recording sp then sp\<lparr>span_attributes := span_attributes sp @ kv\<rparr> else sp)"

text \<open>The sugared logger, as the key/value pairs added to it with \<open>With\<close>.\<close>

datatype SugaredLogger = SugaredLogger "(string \<times> string) list"

fun With :: "SugaredLogger \<Rightarrow> (string \<times> string) list \<Rightarrow> SugaredLogger" where
  "With (SugaredLogger kvs) args = SugaredLogger (kvs @ args)"

text \<open>
  Values of type \<open>interface{}\<close> as the context stores hold them: a string, a sugared
  logger, or a value of another type. A key with no value is \<open>nil\<close>, here \<open>None\<close>.
\<close>

datatype any = AnyString string | AnyLogger SugaredLogger | AnyOther string

record GoContext =
  ctx_values :: "string \<Rightarrow> any option"
  ctx_span :: "Span option"

definition WithValue :: "GoContext \<Rightarrow> string \<Rightarrow> any \<Rightarrow> GoContext" where
  "WithValue ctx k v = ctx\<lparr>ctx_values := (ctx_values ctx)(k \<mapsto> v)\<rparr>"

definition Value :: "GoContext \<Rightarrow> string \<Rightarrow> any option" where
  "Value ctx k = ctx_values ctx k"

text \<open>
  \<open>trace.SpanFromContext\<close>: the span of the context, or a span that does nothing and has
  the zero span context.
\<close>

definition noopSpan :: Span where
  "noopSpan = \<lparr>span_SpanContext = \<lparr>TraceID = 0, SpanID = 0\<rparr>, span_recording = False,
     span_attributes = []\<rparr>"

definition SpanFromContext :: "GoContext \<Rightarrow> Span" where
  "SpanFromContext ctx = (case ctx_span ctx of None \<Rightarrow> noopSpan | Some sp \<Rightarrow> sp)"

subsection \<open>Request, response and the echo context\<close>

record http_Request =
  req_Method :: string
  req_RequestURI :: string
  req_Host :: string
  req_RemoteAddr :: string
  req_Proto :: string
  req_Header :: header
  req_Form :: "(string \<times> string list) list"
  req_Body :: ReadCloser
  req_Context :: GoContext

text \<open>
  The connection under the response: \<open>wire\<close> is what the client has received,
  \<open>conn_calls\<close> the data of every \<open>Write\<close> call made on it, and \<open>conn_faults\<close> says how
  its next calls end: \<open>None\<close> takes all the data; \<open>Some (n, e)\<close> takes the first \<open>n\<close> bytes
  and returns the error \<open>e\<close>. Calls beyond the list take all the data.
\<close>

record Conn =
  wire :: bytes
  conn_calls :: "bytes list"
  conn_faults :: "(nat \<times> string) option list"

definition Conn_Write :: "bytes \<Rightarrow> Conn \<Rightarrow> (nat \<times> string option) \<times> Conn" where
  "Conn_Write b cn =
     (case conn_faults cn of
        [] \<Rightarrow> ((length b, None), cn\<lparr>wire := wire cn @ b, conn_calls := conn_calls cn @ [b]\<rparr>)
      | None # fs \<Rightarrow>
          ((length b, None),
           cn\<lparr>wire := wire cn @ b, conn_calls := conn_calls cn @ [b], conn_faults := fs\<rparr>)
      | Some (n, e) # fs \<Rightarrow>
          ((min n (length b), Some e),
           cn\<lparr>wire := wire cn @ take n b, conn_calls := conn_calls cn @ [b], conn_faults := fs\<rparr>))"

text \<open>
  The writer of a response is the connection's own writer or a \<open>responseWriter\<close> of
  \<open>ZapLogger\<close>: its \<open>ResponseWriter\<close> is the writer it wraps and its \<open>Writer\<close> is
  \<open>io.MultiWriter\<close> over that writer and a capture buffer, named by its address.
\<close>

datatype Writer = Underlying | responseWriter Writer nat

record echo_Response =
  res_Status :: int
  res_Header :: header
  res_Writer :: Writer

text \<open>
  The echo context with the objects it reaches: the request, the response, the values set
  with \<open>c.Set\<close>, the route path, parameter values, query string and client address, the
  connection, and the \<open>bytes.Buffer\<close> objects allocated so far (\<open>buffers\<close> by address,
  \<open>nbuffers\<close> the next free address).
\<close>

record EchoContext =
  c_Request :: http_Request
  c_Response :: echo_Response
  c_store :: "string \<Rightarrow> any option"
  c_Path :: string
  c_ParamValues :: "string list"
  c_QueryString :: string
  c_RealIP :: string
  conn :: Conn
  buffers :: "nat \<Rightarrow> bytes"
  nbuffers :: nat

definition ErrShortWrite :: string where
  "ErrShortWrite = ''short write''"

text \<open>
  \<open>Write\<close> on a writer. On a \<open>responseWriter\<close> it is \<open>w.Writer.Write(b)\<close>, the
  multi-writer: the wrapped writer first; an error or a short count ends the call there;
  then the capture buffer, whose \<open>Write\<close> appends and never fails.
\<close>

fun Write :: "Writer \<Rightarrow> bytes \<Rightarrow> EchoContext \<Rightarrow> (nat \<times> string option) \<times> EchoContext" where
  "Write Underlying b c = (case Conn_Write b (conn c) of (r, cn) \<Rightarrow> (r, c\<lparr>conn := cn\<rparr>))"
| "Write (responseWriter w a) b c =
     (case Write w b c of
        ((n, Some err), c1) \<Rightarrow> ((n, Some err), c1)
      | ((n, None), c1) \<Rightarrow>
          if n \<noteq> length b then ((n, Some ErrShortWrite), c1)
          else ((length b, None), c1\<lparr>buffers := (buffers c1)(a := buffers c1 a @ b)\<rparr>))"

text \<open>A handler takes the context and returns its error, if any, and the context it leaves.\<close>

type_synonym HandlerFunc = "EchoContext \<Rightarrow> string option \<times> EchoContext"

definition Set :: "EchoContext \<Rightarrow> string \<Rightarrow> any \<Rightarrow> EchoContext" where
  "Set c k v = c\<lparr>c_store := (c_store c)(k \<mapsto> v)\<rparr>"

definition SetRequestContext :: "EchoContext \<Rightarrow> GoContext \<Rightarrow> EchoContext" where
  "SetRequestContext c ctx = c\<lparr>c_Request := (c_Request c)\<lparr>req_Context := ctx\<rparr>\<rparr>"

subsection \<open>What the code takes from outside\<close>

text \<open>
  The values a stored document holds, and a document (a Go map from keys to values). A
  \<open>float64\<close> is kept as the number it stands for.
\<close>

datatype docval = DString string | DInt64 "64 word" | DFloat64 real | DBool bool | DIface iface

type_synonym document = "string \<Rightarrow> docval option"

text \<open>
  Library functions and process-wide values the code calls and the repository does not
  define: the upgrade test of the websocket library (it reads the header only), echo's
  error handler, the renderings of \<open>fmt\<close> and \<open>url.Values\<close>, the formatting of a time
  given in nanoseconds, the store's \<open>InsertOne\<close> (its result is the error, also when the
  deadline of its context passes), the global sugared logger \<open>zap.S()\<close> and the
  configuration value \<open>ENVIRONMENT\<close>.
\<close>

record externals =
  IsWebSocketUpgrade :: "header \<Rightarrow> bool"
  HTTPErrorHandler :: "string \<Rightarrow> EchoContext \<Rightarrow> EchoContext"
  fmt_Header :: "header \<Rightarrow> string"
  fmt_Strings :: "string list \<Rightarrow> string"
  Form_Encode :: "(string \<times> string list) list \<Rightarrow> string"
  Format_RFC3339 :: "64 word \<Rightarrow> string"
  InsertOne :: "string \<Rightarrow> document \<Rightarrow> string option"
  zap_S :: SugaredLogger
  ENVIRONMENT :: string

text \<open>The clock readings of one run of \<open>ZapLogger\<close>.\<close>

record Clock =
  since_start :: string
  now_RFC3339 :: string
  now_Unix :: "64 word"

section \<open>Severity classification (the status switch of ZapLogger)\<close>

text \<open>
  The \<open>switch\<close> on \<open>n := res.Status\<close> at the end of \<open>ZapLogger\<close>: the cases are tried
  from the top and the first that holds logs. Only comparisons are made on the status, so
  it is an \<^typ>\<open>int\<close>.
\<close>

definition classify :: "int \<Rightarrow> Field list \<Rightarrow> Entry" where
  "classify n fs =
     (if n \<ge> 500 then log_Error ''Server error'' fs
      else if n \<ge> 400 then log_Warn ''Client error'' fs
      else if n \<ge> 300 then log_Info ''Redirection'' fs
      else log_Info ''Success'' fs)"

section \<open>The body-dump helper\<close>

text \<open>
  \<open>strings.ReplaceAll(s, old, new)\<close> for a pattern \<open>old\<close> of one byte, which is how
  \<open>BodyDump\<close> calls it: every occurrence of the byte is replaced, left to right.
\<close>

fun ReplaceAll :: "string \<Rightarrow> char \<Rightarrow> string \<Rightarrow> string" where
  "ReplaceAll [] old new = []"
| "ReplaceAll (x # xs) old new =
     (if x = old then new @ ReplaceAll xs old new else x # ReplaceAll xs old new)"

record BodyDumpModel =
  Host :: string
  Path :: string
  Method :: string
  RemoteAddress :: string
  Header :: string
  Status :: int
  Request :: string
  Response :: string

text \<open>
  \<open>BodyDump\<close> returns the lines it hands to the global sugared logger. \<open>marshal\<close> is
  \<open>json.Marshal\<close> on the model, whose error the code drops.
\<close>

definition BodyDump ::
  "externals \<Rightarrow> (BodyDumpModel \<Rightarrow> string) \<Rightarrow> EchoContext \<Rightarrow> bytes \<Rightarrow> bytes \<Rightarrow> Entry list" where
  "BodyDump ext marshal c reqBody resBody =
     (if ENVIRONMENT ext \<noteq> ''production'' \<and> c_Path c \<noteq> ''/healthz'' then
        (let reqBodyString = reqBody;
             reqBodyString = ReplaceAll reqBodyString (CHR 0x0A) [];
             reqBodyString = ReplaceAll reqBodyString (CHR 0x0D) [];
             reqBodyString = ReplaceAll reqBodyString (CHR 0x09) [];
             resBodyString = resBody;
             resBodyString = ReplaceAll resBodyString (CHR 0x0A) [];
             resBodyString = ReplaceAll resBodyString (CHR 0x0D) [];
             resBodyString = ReplaceAll resBodyString (CHR 0x09) [];
             j = marshal \<lparr>Host = req_Host (c_Request c), Path = c_Path c,
                   Method = req_Method (c_Request c),
                   RemoteAddress = req_RemoteAddr (c_Request c),
                   Header = fmt_Header ext (req_Header (c_Request c)),
                   Status = res_Status (c_Response c),
                   Request = reqBodyString, Response = resBodyString\<rparr>
         in [log_Info (''Body dump: '' @ j) []])
      else [])"

section \<open>The request logger\<close>

text \<open>
  \<open>readAndResetBody\<close> returns the error or the bytes, and the request as it leaves it: on
  an error the body is the stream as \<open>io.ReadAll\<close> left it, otherwise a new stream over
  the bytes read.
\<close>

definition readAndResetBody :: "http_Request \<Rightarrow> (string + bytes) \<times> http_Request" where
  "readAndResetBody req =
     (case ReadAll (req_Body req) of
        ((bodyBytes, Some err), r) \<Rightarrow> (Inl err, req\<lparr>req_Body := r\<rparr>)
      | ((bodyBytes, None), r) \<Rightarrow> (Inr bodyBytes, req\<lparr>req_Body := NewBuffer bodyBytes\<rparr>))"

text \<open>
  \<open>GetTraceIDFromContext\<close> and the other accessors of the Go context: the value under the
  key when it is a string (a logger for the logger), otherwise the empty string (the
  global logger).
\<close>

definition loggerContextKey :: string where
  "loggerContextKey = ''logger''"

definition traceIDContextKey :: string where
  "traceIDContextKey = ''trace_id''"

definition spanIDContextKey :: string where
  "spanIDContextKey = ''span_id''"

definition requestIDContextKey :: string where
  "requestIDContextKey = ''request_id''"

definition RequestIDAttribute :: string where
  "RequestIDAttribute = ''request.id''"

definition GetLogger :: "externals \<Rightarrow> EchoContext \<Rightarrow> SugaredLogger" where
  "GetLogger ext c = (case c_store c loggerContextKey of Some (AnyLogger l) \<Rightarrow> l | _ \<Rightarrow> zap_S ext)"

definition GetLoggerFromContext :: "externals \<Rightarrow> GoContext \<Rightarrow> SugaredLogger" where
  "GetLoggerFromContext ext ctx =
     (case Value ctx loggerContextKey of Some (AnyLogger l) \<Rightarrow> l | _ \<Rightarrow> zap_S ext)"

definition GetTraceID :: "EchoContext \<Rightarrow> string" where
  "GetTraceID c = (case c_store c traceIDContextKey of Some (AnyString s) \<Rightarrow> s | _ \<Rightarrow> [])"

definition GetTraceIDFromContext :: "GoContext \<Rightarrow> string" where
  "GetTraceIDFromContext ctx = (case Value ctx traceIDContextKey of Some (AnyString s) \<Rightarrow> s | _ \<Rightarrow> [])"

definition GetSpanID :: "EchoContext \<Rightarrow> string" where
  "GetSpanID c = (case c_store c spanIDContextKey of Some (AnyString s) \<Rightarrow> s | _ \<Rightarrow> [])"

definition GetSpanIDFromContext :: "GoContext \<Rightarrow> string" where
  "GetSpanIDFromContext ctx = (case Value ctx spanIDContextKey of Some (AnyString s) \<Rightarrow> s | _ \<Rightarrow> [])"

definition GetRequestID :: "EchoContext \<Rightarrow> string" where
  "GetRequestID c = (case c_store c requestIDContextKey of Some (AnyString s) \<Rightarrow> s | _ \<Rightarrow> [])"

definition GetRequestIDFromContext :: "GoContext \<Rightarrow> string" where
  "GetRequestIDFromContext ctx =
     (case Value ctx requestIDContextKey of Some (AnyString s) \<Rightarrow> s | _ \<Rightarrow> [])"

definition GetSpanFromContext :: "GoContext \<Rightarrow> Span" where
  "GetSpanFromContext ctx = SpanFromContext ctx"

text \<open>
  What one call of the handler that \<open>ZapLogger\<close> returns does: the error it returns, the
  context it leaves, the lines it logs itself, in order, the field lists it starts a
  persistence goroutine with, and the contexts it called the next handler with.
\<close>

record Outcome =
  returned :: "string option"
  final_context :: EchoContext
  logged :: "Entry list"
  spawned :: "Field list list"
  invoked :: "EchoContext list"

text \<open>
  The request ID as \<open>ZapLogger\<close> resolves it: the request header, and the response header
  when that is empty.
\<close>

definition ZapLogger_requestID :: "http_Request \<Rightarrow> echo_Response \<Rightarrow> string" where
  "ZapLogger_requestID req res =
     (let requestID = Get (req_Header req) HeaderXRequestID
      in if requestID = [] then Get (res_Header res) HeaderXRequestID else requestID)"

text \<open>The field list of \<open>ZapLogger\<close>, from the request, the response and the clock.\<close>

definition ZapLogger_fields ::
  "externals \<Rightarrow> Clock \<Rightarrow> EchoContext \<Rightarrow> bytes \<Rightarrow> bytes \<Rightarrow> Field list" where
  "ZapLogger_fields ext clk c bodyBytes resBody =
     (let req = c_Request c;
          res = c_Response c;
          requestID = ZapLogger_requestID req res;
          span = GetSpanFromContext (req_Context (c_Request c));
          tracerID = GetTraceIDFromContext (req_Context (c_Request c));
          spanID = SpanID_String (SpanID (span_SpanContext span));
          params = fmt_Strings ext (c_ParamValues c)
      in [zap_Int ''status'' (res_Status res),
          zap_String ''latency'' (since_start clk),
          zap_String ''request_id'' requestID,
          zap_String ''trace_id'' tracerID,
          zap_String ''span_id'' spanID,
          zap_String ''time'' (now_RFC3339 clk),
          zap_Int64 ''timestamp'' (now_Unix clk),
          zap_String ''method'' (req_Method req),
          zap_String ''uri'' (req_RequestURI req),
          zap_String ''host'' (req_Host req),
          zap_String ''remote_ip'' (c_RealIP c),
          zap_String ''header'' (fmt_Header ext (req_Header req)),
          zap_String ''path'' (c_Path c),
          zap_String ''query'' (c_QueryString c),
          zap_String ''form'' (Form_Encode ext (req_Form req)),
          zap_String ''param'' params,
          zap_String ''body'' bodyBytes,
          zap_String ''user_agent'' (Get (req_Header req) ''User-Agent''),
          zap_String ''referer'' (Get (req_Header req) ''Referer''),
          zap_String ''request_proto'' (req_Proto req),
          zap_String ''response'' resBody])"

text \<open>
  The three steps of \<open>ZapLogger\<close> around the next handler: \<open>new(bytes.Buffer)\<close>, which
  allocates an empty buffer at the next free address; the assignment of the
  \<open>responseWriter\<close> over the response's writer and the buffer to \<open>c.Response().Writer\<close>;
  and \<open>err = next(c)\<close> with \<open>c.Error(err)\<close> when it is not nil.
\<close>

definition new_Buffer :: "EchoContext \<Rightarrow> EchoContext" where
  "new_Buffer c = c\<lparr>buffers := (buffers c)(nbuffers c := []), nbuffers := Suc (nbuffers c)\<rparr>"

definition wrap_Writer :: "nat \<Rightarrow> EchoContext \<Rightarrow> EchoContext" where
  "wrap_Writer resBody c =
     c\<lparr>c_Response := (c_Response c)\<lparr>res_Writer := responseWriter (res_Writer (c_Response c)) resBody\<rparr>\<rparr>"

definition call_next :: "externals \<Rightarrow> HandlerFunc \<Rightarrow> EchoContext \<Rightarrow> EchoContext" where
  "call_next ext next c =
     (case next c of
        (Some err, c1) \<Rightarrow> HTTPErrorHandler ext err c1
      | (None, c1) \<Rightarrow> c1)"

text \<open>
  The handler \<open>ZapLogger(log, collection)(next)\<close> applied to a context. \<open>collection\<close> is
  \<open>None\<close> for a nil collection. The request is one object, so what the next handler
  changes of it is what \<open>req\<close> shows afterwards. The goroutine that persists is started,
  not run, here: \<open>persist\<close> below is its body.
\<close>

definition ZapLogger ::
  "externals \<Rightarrow> Clock \<Rightarrow> string option \<Rightarrow> HandlerFunc \<Rightarrow> EchoContext \<Rightarrow> Outcome" where
  "ZapLogger ext clk collection next c =
     (if IsWebSocketUpgrade ext (req_Header (c_Request c)) then
        (case next c of (err, c1) \<Rightarrow>
           \<lparr>returned = err, final_context = c1, logged = [], spawned = [], invoked = [c]\<rparr>)
      else
        (case (if \<not> IsWebSocketUpgrade ext (req_Header (c_Request c))
               then readAndResetBody (c_Request c) else (Inr [], c_Request c)) of
           (Inl err, req) \<Rightarrow>
             \<lparr>returned = Some err, final_context = c\<lparr>c_Request := req\<rparr>, logged = [],
              spawned = [], invoked = []\<rparr>
         | (Inr bodyBytes, req) \<Rightarrow>
             (let c1 = c\<lparr>c_Request := req\<rparr>;
                  resBody = nbuffers c1;
                  c2 = new_Buffer c1;
                  c3 = (if \<not> IsWebSocketUpgrade ext (req_Header req)
                        then wrap_Writer resBody c2 else c2);
                  c4 = call_next ext next c3;
                  res = c_Response c4;
                  fs = ZapLogger_fields ext clk c4 bodyBytes (buffers c4 resBody)
              in if c_Path c4 = ''/healthz'' \<and> res_Status res = 200 then
                   \<lparr>returned = None, final_context = c4, logged = [], spawned = [],
                    invoked = [c3]\<rparr>
                 else
                   \<lparr>returned = None, final_context = c4,
                    logged = [classify (res_Status res) fs],
                    spawned = (if collection \<noteq> None then [fs] else []),
                    invoked = [c3]\<rparr>)))"

subsection \<open>Persistence\<close>

text \<open>
  \<open>float64(i)\<close> for a 64-bit integer \<open>i\<close>: the nearest number with 53 significant bits,
  a tie going to the even one. The result is again a whole number.
\<close>

fun bit_length :: "nat \<Rightarrow> nat" where
  "bit_length n = (if n = 0 then 0 else Suc (bit_length (n div 2)))"

definition float64_of_int :: "int \<Rightarrow> int" where
  "float64_of_int i =
     (let a = nat \<bar>i\<bar>
      in if bit_length a \<le> 53 then i
         else (let e = bit_length a - 53;
                   q = a div 2 ^ e;
                   r = a mod 2 ^ e;
                   h = 2 ^ (e - 1);
                   q1 = (if r > h \<or> (r = h \<and> odd q) then q + 1 else q)
               in sgn i * int (q1 * 2 ^ e)))"

text \<open>The \<open>switch\<close> on the field type in \<open>zapFieldsToMap\<close>: the value stored for a field.\<close>

definition field_value :: "externals \<Rightarrow> Field \<Rightarrow> docval" where
  "field_value ext field =
     (case Type field of
        StringType \<Rightarrow> DString (String field)
      | Int64Type \<Rightarrow> DInt64 (Integer field)
      | Int32Type \<Rightarrow> DInt64 (Integer field)
      | Int16Type \<Rightarrow> DInt64 (Integer field)
      | Int8Type \<Rightarrow> DInt64 (Integer field)
      | Uint64Type \<Rightarrow> DInt64 (Integer field)
      | Uint32Type \<Rightarrow> DInt64 (Integer field)
      | Uint16Type \<Rightarrow> DInt64 (Integer field)
      | Uint8Type \<Rightarrow> DInt64 (Integer field)
      | Float64Type \<Rightarrow> DFloat64 (real_of_int (float64_of_int (sint (Integer field))))
      | Float32Type \<Rightarrow> DFloat64 (real_of_int (float64_of_int (sint (Integer field))))
      | BoolType \<Rightarrow> DBool (Integer field \<noteq> 0)
      | TimeType \<Rightarrow> DString (Format_RFC3339 ext (Integer field))
      | DurationType \<Rightarrow> DInt64 (Integer field)
      | ReflectType \<Rightarrow> DIface (Interface field)
      | _ \<Rightarrow> DString (String field))"

fun zapFieldsToMap_loop :: "externals \<Rightarrow> document \<Rightarrow> Field list \<Rightarrow> document" where
  "zapFieldsToMap_loop ext fieldMap [] = fieldMap"
| "zapFieldsToMap_loop ext fieldMap (field # fs) =
     zapFieldsToMap_loop ext (fieldMap(Key field \<mapsto> field_value ext field)) fs"

definition zapFieldsToMap :: "externals \<Rightarrow> Field list \<Rightarrow> document" where
  "zapFieldsToMap ext fs = zapFieldsToMap_loop ext Map.empty fs"

text \<open>
  \<open>mongoInsertFunc\<close> as the package sets it: the error, and the documents it handed to the
  store's \<open>InsertOne\<close>.
\<close>

definition mongoInsertFunc ::
  "externals \<Rightarrow> string option \<Rightarrow> document \<Rightarrow> string option \<times> document list" where
  "mongoInsertFunc ext collection doc =
     (case collection of
        None \<Rightarrow> (Some ''collection is nil'', [])
      | Some cl \<Rightarrow> (InsertOne ext cl doc, [doc]))"

text \<open>
  The body of the goroutine \<open>ZapLogger\<close> starts: the lines it logs and the documents it
  handed to the store.
\<close>

definition persist ::
  "externals \<Rightarrow> string option \<Rightarrow> Field list \<Rightarrow> Entry list \<times> document list" where
  "persist ext collection fs =
     (let fieldMap = zapFieldsToMap ext fs
      in (case mongoInsertFunc ext collection fieldMap of
            (Some err, attempts) \<Rightarrow>
              ([log_Error ''Error while inserting log to mongo'' [zap_Error err]], attempts)
          | (None, attempts) \<Rightarrow> ([], attempts)))"

text \<open>
  One request from end to end: the handler, then the goroutines it started. The result is
  the outcome of the handler, every line the log sink received, in order, and the
  documents handed to the store.
\<close>

definition ZapLogger_run ::
  "externals \<Rightarrow> Clock \<Rightarrow> string option \<Rightarrow> HandlerFunc \<Rightarrow> EchoContext
     \<Rightarrow> Outcome \<times> Entry list \<times> document list" where
  "ZapLogger_run ext clk collection next c =
     (let out = ZapLogger ext clk collection next c;
          tasks = map (persist ext collection) (spawned out)
      in (out, logged out @ concat (map fst tasks), concat (map snd tasks)))"

section \<open>Logger and identifiers in the context\<close>

definition OtelLoggerMiddleware :: "HandlerFunc \<Rightarrow> EchoContext \<Rightarrow> string option \<times> EchoContext" where
  "OtelLoggerMiddleware next c =
     (let span = SpanFromContext (req_Context (c_Request c));
          requestID = Get (res_Header (c_Response c)) HeaderXRequestID;
          requestID = (if requestID = [] then Get (req_Header (c_Request c)) HeaderXRequestID
                       else requestID);
          ctx0 = (if IsValid (span_SpanContext span)
                  then (req_Context (c_Request c))
                         \<lparr>ctx_span := Some (SetAttributes [(RequestIDAttribute, requestID)] span)\<rparr>
                  else req_Context (c_Request c));
          ctx = WithValue ctx0 requestIDContextKey (AnyString requestID)
      in next (SetRequestContext c ctx))"

definition LoggerWithContext ::
  "externals \<Rightarrow> HandlerFunc \<Rightarrow> EchoContext \<Rightarrow> string option \<times> EchoContext" where
  "LoggerWithContext ext next c =
     (let span = SpanFromContext (req_Context (c_Request c));
          spanContext = span_SpanContext span;
          traceID = (if IsValid spanContext then TraceID_String (TraceID spanContext) else []);
          spanID = (if IsValid spanContext then SpanID_String (SpanID spanContext) else []);
          requestID = Get (res_Header (c_Response c)) HeaderXRequestID;
          requestID = (if requestID = [] then Get (req_Header (c_Request c)) HeaderXRequestID
                       else requestID);
          logger = With (zap_S ext)
                     [(''trace_id'', traceID), (''span_id'', spanID), (''request_id'', requestID)];
          c = Set c loggerContextKey (AnyLogger logger);
          c = Set c traceIDContextKey (AnyString traceID);
          c = Set c spanIDContextKey (AnyString spanID);
          c = Set c requestIDContextKey (AnyString requestID);
          ctx = WithValue (req_Context (c_Request c)) loggerContextKey (AnyLogger logger);
          ctx = WithValue ctx traceIDContextKey (AnyString traceID);
          ctx = WithValue ctx spanIDContextKey (AnyString spanID);
          ctx = WithValue ctx requestIDContextKey (AnyString requestID)
      in next (SetRequestContext c ctx))"

section \<open>Example inputs\<close>

text \<open>
  Concrete externals, a clock, a context and handlers, on which the theorems below are
  run. The handler \<open>respond st bs\<close> sets the status and writes the chunks \<open>bs\<close> through
  the writer of the response, as \<open>c.String\<close> does.
\<close>

definition ex_externals :: externals where
  "ex_externals = \<lparr>
     IsWebSocketUpgrade = (\<lambda>h. h ''Connection'' = [''Upgrade''] \<and> h ''Upgrade'' = [''websocket'']),
     HTTPErrorHandler = (\<lambda>e c. c\<lparr>c_Response := (c_Response c)\<lparr>res_Status := 500\<rparr>\<rparr>),
     fmt_Header = (\<lambda>h. ''map[]''),
     fmt_Strings = (\<lambda>xs. ''['' @ concat xs @ '']''),
     Form_Encode = (\<lambda>f. []),
     Format_RFC3339 = (\<lambda>t. ''1970-01-01T00:00:01Z''),
     InsertOne = (\<lambda>cl d. Some ''insert failed''),
     zap_S = SugaredLogger [],
     ENVIRONMENT = ''development''\<rparr>"

definition ex_Clock :: Clock where
  "ex_Clock = \<lparr>since_start = ''1ms'', now_RFC3339 = ''2024-01-01T00:00:00Z'', now_Unix = 1704067200\<rparr>"

definition no_header :: header where
  "no_header = (\<lambda>k. [])"

definition upgrade_header :: header where
  "upgrade_header = no_header(''Connection'' := [''Upgrade''], ''Upgrade'' := [''websocket''])"

definition ex_context :: "string \<Rightarrow> header \<Rightarrow> header \<Rightarrow> ReadCloser \<Rightarrow> EchoContext" where
  "ex_context p reqh resh body = \<lparr>
     c_Request = \<lparr>req_Method = ''POST'', req_RequestURI = p, req_Host = ''example.local'',
        req_RemoteAddr = ''10.0.0.1:4000'', req_Proto = ''HTTP/1.1'', req_Header = reqh,
        req_Form = [], req_Body = body,
        req_Context = \<lparr>ctx_values = Map.empty, ctx_span = None\<rparr>\<rparr>,
     c_Response = \<lparr>res_Status = 0, res_Header = resh, res_Writer = Underlying\<rparr>,
     c_store = Map.empty, c_Path = p, c_ParamValues = [], c_QueryString = [],
     c_RealIP = ''10.0.0.1'',
     conn = \<lparr>wire = [], conn_calls = [], conn_faults = []\<rparr>,
     buffers = (\<lambda>a. []), nbuffers = 0\<rparr>"

text \<open>
  The handler that returns at once: what \<open>observe\<close> after a middleware leaves is the
  context the middleware called its next handler with. A span context as the
  repository's tests build it, and contexts with and without it.
\<close>

definition observe :: HandlerFunc where
  "observe c = (None, c)"

definition ex_SpanContext :: SpanContext where
  "ex_SpanContext = \<lparr>TraceID = 0x01020304050607080807060504030201, SpanID = 0x0102030405060708\<rparr>"

definition ex_span_context :: "header \<Rightarrow> header \<Rightarrow> EchoContext" where
  "ex_span_context reqh resh =
     (ex_context ''/resource'' reqh resh (ReadCloser [] EOF))
       \<lparr>c_Request := (c_Request (ex_context ''/resource'' reqh resh (ReadCloser [] EOF)))
          \<lparr>req_Context := \<lparr>ctx_values = Map.empty,
              ctx_span = Some \<lparr>span_SpanContext = ex_SpanContext, span_recording = True,
                               span_attributes = []\<rparr>\<rparr>\<rparr>\<rparr>"

definition request_id_header :: "string \<Rightarrow> header" where
  "request_id_header v = no_header(''X-Request-Id'' := [v])"


text \<open>A sequence of \<open>Write\<close> calls on one writer, each made whatever the one before returned.\<close>

fun Write_all :: "Writer \<Rightarrow> bytes list \<Rightarrow> EchoContext \<Rightarrow> EchoContext" where
  "Write_all w [] c = c"
| "Write_all w (b # bs) c = Write_all w bs (snd (Write w b c))"

definition respond :: "int \<Rightarrow> bytes list \<Rightarrow> HandlerFunc" where
  "respond st bs c =
     (None, Write_all (res_Writer (c_Response c)) bs
              (c\<lparr>c_Response := (c_Response c)\<lparr>res_Status := st\<rparr>\<rparr>))"

section \<open>Properties\<close>

subsection \<open>Severity classification\<close>

text \<open>
  C3. The classification is defined on every status and has four bands that exclude one
  another and cover all statuses: Error exactly from 500 up, Warn exactly on 400..499,
  Info "Redirection" exactly on 300..399 and Info "Success" exactly below 300. The
  boundaries 300, 400 and 500 start their band; 599 is an Error, 200 and 101 are
  Info "Success".
\<close>

theorem classify_bands:
  "(classify n fs = log_Error ''Server error'' fs) = (500 \<le> n)
   \<and> (classify n fs = log_Warn ''Client error'' fs) = (400 \<le> n \<and> n < 500)
   \<and> (classify n fs = log_Info ''Redirection'' fs) = (300 \<le> n \<and> n < 400)
   \<and> (classify n fs = log_Info ''Success'' fs) = (n < 300)
   \<and> classify 500 fs = log_Error ''Server error'' fs
   \<and> classify 599 fs = log_Error ''Server error'' fs
   \<and> classify 400 fs = log_Warn ''Client error'' fs
   \<and> classify 499 fs = log_Warn ''Client error'' fs
   \<and> classify 300 fs = log_Info ''Redirection'' fs
   \<and> classify 399 fs = log_Info ''Redirection'' fs
   \<and> classify 299 fs = log_Info ''Success'' fs
   \<and> classify 200 fs = log_Info ''Success'' fs
   \<and> classify 101 fs = log_Info ''Success'' fs"
  by (simp add: classify_def log_Error_def log_Warn_def log_Info_def)

subsection \<open>Request body capture\<close>

lemma ReadAll_loop_EOF: "ReadAll_loop b cs EOF = ((b @ concat cs, None), ReadCloser [] EOF)"
  by (induction cs arbitrary: b) auto

lemma ReadAll_EOF: "ReadAll (ReadCloser cs EOF) = ((concat cs, None), ReadCloser [] EOF)"
  by (simp add: ReadAll_def ReadAll_loop_EOF)

lemma ReadAll_NewBuffer: "ReadAll (NewBuffer b) = ((b, None), ReadCloser [] EOF)"
  by (simp add: NewBuffer_def ReadAll_EOF)

lemma readAndResetBody_EOF:
  "readAndResetBody (req\<lparr>req_Body := ReadCloser cs EOF\<rparr>)
     = (Inr (concat cs), req\<lparr>req_Body := NewBuffer (concat cs)\<rparr>)"
  by (simp add: readAndResetBody_def ReadAll_EOF)

lemma readAndResetBody_Header: "req_Header (snd (readAndResetBody r)) = req_Header r"
  by (simp add: readAndResetBody_def split: prod.splits option.splits)

text \<open>
  C1. For a body stream that delivers the bytes \<open>concat cs\<close>, in whatever chunks \<open>cs\<close>,
  and then ends: \<open>readAndResetBody\<close> returns exactly these bytes and leaves a body that
  reads as the same bytes; and the handler after \<open>ZapLogger\<close> is called once, with a
  request whose body reads as the same bytes.
\<close>

theorem readAndResetBody_roundtrip:
  "readAndResetBody (req\<lparr>req_Body := ReadCloser cs EOF\<rparr>)
     = (Inr (concat cs), req\<lparr>req_Body := NewBuffer (concat cs)\<rparr>)
   \<and> fst (ReadAll (req_Body (snd (readAndResetBody (req\<lparr>req_Body := ReadCloser cs EOF\<rparr>)))))
     = (concat cs, None)
   \<and> map (\<lambda>x. fst (ReadAll (req_Body (c_Request x))))
        (invoked (ZapLogger ext clk collection next
           (c\<lparr>c_Request := (c_Request c)\<lparr>req_Body := ReadCloser cs EOF\<rparr>\<rparr>)))
     = [(concat cs, None)]"
proof (intro conjI)
  show "readAndResetBody (req\<lparr>req_Body := ReadCloser cs EOF\<rparr>)
     = (Inr (concat cs), req\<lparr>req_Body := NewBuffer (concat cs)\<rparr>)"
    by (rule readAndResetBody_EOF)
  show "fst (ReadAll (req_Body (snd (readAndResetBody (req\<lparr>req_Body := ReadCloser cs EOF\<rparr>)))))
     = (concat cs, None)"
    by (simp add: readAndResetBody_EOF ReadAll_NewBuffer)
  show "map (\<lambda>x. fst (ReadAll (req_Body (c_Request x))))
        (invoked (ZapLogger ext clk collection next
           (c\<lparr>c_Request := (c_Request c)\<lparr>req_Body := ReadCloser cs EOF\<rparr>\<rparr>)))
     = [(concat cs, None)]"
    by (simp add: ZapLogger_def readAndResetBody_EOF ReadAll_NewBuffer ReadAll_EOF Let_def
        new_Buffer_def wrap_Writer_def split: prod.splits)
qed

subsection \<open>The branches of the request logger\<close>

lemma ZapLogger_upgrade:
  "IsWebSocketUpgrade ext (req_Header (c_Request c)) \<Longrightarrow>
   ZapLogger ext clk collection next c =
     \<lparr>returned = fst (next c), final_context = snd (next c), logged = [], spawned = [],
      invoked = [c]\<rparr>"
  by (simp add: ZapLogger_def split: prod.splits)

lemma ZapLogger_read_error:
  "\<not> IsWebSocketUpgrade ext (req_Header (c_Request c)) \<Longrightarrow>
   readAndResetBody (c_Request c) = (Inl e, req) \<Longrightarrow>
   ZapLogger ext clk collection next c =
     \<lparr>returned = Some e, final_context = c\<lparr>c_Request := req\<rparr>, logged = [], spawned = [],
      invoked = []\<rparr>"
  by (simp add: ZapLogger_def)

lemma ZapLogger_served:
  assumes "\<not> IsWebSocketUpgrade ext (req_Header (c_Request c))"
    and "readAndResetBody (c_Request c) = (Inr b, req)"
  shows "ZapLogger ext clk collection next c =
     (let c3 = wrap_Writer (nbuffers c) (new_Buffer (c\<lparr>c_Request := req\<rparr>));
          c4 = call_next ext next c3;
          fs = ZapLogger_fields ext clk c4 b (buffers c4 (nbuffers c))
      in \<lparr>returned = None, final_context = c4,
          logged = (if c_Path c4 = ''/healthz'' \<and> res_Status (c_Response c4) = 200 then []
                    else [classify (res_Status (c_Response c4)) fs]),
          spawned = (if c_Path c4 = ''/healthz'' \<and> res_Status (c_Response c4) = 200 then []
                     else if collection \<noteq> None then [fs] else []),
          invoked = [c3]\<rparr>)"
proof -
  have "req_Header req = req_Header (c_Request c)"
    using readAndResetBody_Header[of "c_Request c"] assms(2) by simp
  with assms show ?thesis
    by (simp add: ZapLogger_def Let_def)
qed

lemma ZapLogger_branches:
  obtains (upgrade) "IsWebSocketUpgrade ext (req_Header (c_Request c))"
  | (read_error) e req where "\<not> IsWebSocketUpgrade ext (req_Header (c_Request c))"
      "readAndResetBody (c_Request c) = (Inl e, req)"
  | (served) b req where "\<not> IsWebSocketUpgrade ext (req_Header (c_Request c))"
      "readAndResetBody (c_Request c) = (Inr b, req)"
  by (cases "readAndResetBody (c_Request c)"; cases "fst (readAndResetBody (c_Request c))") auto

lemma ZapLogger_suppressed:
  assumes "c_Path (final_context (ZapLogger ext clk collection next c)) = ''/healthz''"
    and "res_Status (c_Response (final_context (ZapLogger ext clk collection next c))) = 200"
  shows "logged (ZapLogger ext clk collection next c) = []
       \<and> spawned (ZapLogger ext clk collection next c) = []"
proof (cases rule: ZapLogger_branches[of ext c])
  case upgrade
  then show ?thesis by (simp add: ZapLogger_upgrade)
next
  case (read_error e req)
  then show ?thesis by (simp add: ZapLogger_read_error)
next
  case (served b req)
  with assms show ?thesis
    by (simp add: ZapLogger_served[OF served] Let_def split: if_splits)
qed


lemmas ex_defs = ex_externals_def ex_Clock_def no_header_def upgrade_header_def ex_context_def
  respond_def observe_def ex_SpanContext_def ex_span_context_def request_id_header_def

lemmas run_defs = ZapLogger_def ZapLogger_run_def readAndResetBody_def ReadAll_def NewBuffer_def
  new_Buffer_def wrap_Writer_def call_next_def Conn_Write_def EOF_def Let_def

subsection \<open>The health-check rule\<close>

text \<open>
  C4, as the code has it. Whenever the route path is "/healthz" and the response status
  is 200 when the middleware decides, it logs no line, starts no persistence, and the
  whole run logs nothing and hands nothing to the store. For a request that is served (no
  protocol upgrade, body read without error) on the same path with a status other than
  200, the middleware logs exactly one line; with no collection configured that is the
  whole log.
\<close>

theorem ZapLogger_healthz:
  "(c_Path (final_context (ZapLogger ext clk collection next c)) = ''/healthz'' \<and>
    res_Status (c_Response (final_context (ZapLogger ext clk collection next c))) = 200 \<longrightarrow>
      logged (ZapLogger ext clk collection next c) = [] \<and>
      spawned (ZapLogger ext clk collection next c) = [] \<and>
      snd (ZapLogger_run ext clk collection next c) = ([], []))
   \<and> (\<not> IsWebSocketUpgrade ext (req_Header (c_Request c)) \<and>
      fst (readAndResetBody (c_Request c)) = Inr b \<and>
      c_Path (final_context (ZapLogger ext clk collection next c)) = ''/healthz'' \<and>
      res_Status (c_Response (final_context (ZapLogger ext clk collection next c))) \<noteq> 200 \<longrightarrow>
      length (logged (ZapLogger ext clk collection next c)) = 1 \<and>
      (collection = None \<longrightarrow> length (fst (snd (ZapLogger_run ext clk collection next c))) = 1))"
proof (intro conjI impI)
  assume h: "c_Path (final_context (ZapLogger ext clk collection next c)) = ''/healthz'' \<and>
    res_Status (c_Response (final_context (ZapLogger ext clk collection next c))) = 200"
  from h show "logged (ZapLogger ext clk collection next c) = []"
    using ZapLogger_suppressed by blast
  from h show "spawned (ZapLogger ext clk collection next c) = []"
    using ZapLogger_suppressed by blast
  from h show "snd (ZapLogger_run ext clk collection next c) = ([], [])"
    using ZapLogger_suppressed[of ext clk collection "next" c]
    by (simp add: ZapLogger_run_def Let_def)
next
  assume h: "\<not> IsWebSocketUpgrade ext (req_Header (c_Request c)) \<and>
      fst (readAndResetBody (c_Request c)) = Inr b \<and>
      c_Path (final_context (ZapLogger ext clk collection next c)) = ''/healthz'' \<and>
      res_Status (c_Response (final_context (ZapLogger ext clk collection next c))) \<noteq> 200"
  then obtain req where r: "readAndResetBody (c_Request c) = (Inr b, req)"
    by (cases "readAndResetBody (c_Request c)") auto
  from h have u: "\<not> IsWebSocketUpgrade ext (req_Header (c_Request c))" by simp
  from h show one: "length (logged (ZapLogger ext clk collection next c)) = 1"
    by (simp add: ZapLogger_served[OF u r] Let_def split: if_splits)
  assume "collection = None"
  with h show "length (fst (snd (ZapLogger_run ext clk collection next c))) = 1"
    by (simp add: ZapLogger_run_def ZapLogger_served[OF u r] Let_def split: if_splits)
qed

theorem ZapLogger_healthz_witness:
  "c_Path (final_context (ZapLogger ex_externals ex_Clock (Some ''logs'') (respond 200 [''ok''])
       (ex_context ''/healthz'' no_header no_header (ReadCloser [] EOF)))) = ''/healthz''
   \<and> res_Status (c_Response (final_context (ZapLogger ex_externals ex_Clock (Some ''logs'')
       (respond 200 [''ok'']) (ex_context ''/healthz'' no_header no_header (ReadCloser [] EOF))))) = 200
   \<and> snd (ZapLogger_run ex_externals ex_Clock (Some ''logs'') (respond 200 [''ok''])
       (ex_context ''/healthz'' no_header no_header (ReadCloser [] EOF))) = ([], [])
   \<and> res_Status (c_Response (final_context (ZapLogger ex_externals ex_Clock None
       (respond 503 [''down'']) (ex_context ''/healthz'' no_header no_header (ReadCloser [] EOF))))) = 503
   \<and> length (logged (ZapLogger ex_externals ex_Clock None (respond 503 [''down''])
       (ex_context ''/healthz'' no_header no_header (ReadCloser [] EOF)))) = 1
   \<and> length (fst (snd (ZapLogger_run ex_externals ex_Clock None (respond 503 [''down''])
       (ex_context ''/healthz'' no_header no_header (ReadCloser [] EOF))))) = 1"
proof -
  let ?c = "ex_context ''/healthz'' no_header no_header (ReadCloser [] EOF)"
  have a: "c_Path (final_context (ZapLogger ex_externals ex_Clock (Some ''logs'')
             (respond 200 [''ok'']) ?c)) = ''/healthz''
         \<and> res_Status (c_Response (final_context (ZapLogger ex_externals ex_Clock (Some ''logs'')
             (respond 200 [''ok'']) ?c))) = 200"
    by (simp add: run_defs ex_defs)
  have b: "\<not> IsWebSocketUpgrade ex_externals (req_Header (c_Request ?c))
         \<and> fst (readAndResetBody (c_Request ?c)) = Inr []
         \<and> c_Path (final_context (ZapLogger ex_externals ex_Clock None (respond 503 [''down'']) ?c))
             = ''/healthz''
         \<and> res_Status (c_Response (final_context (ZapLogger ex_externals ex_Clock None
             (respond 503 [''down'']) ?c))) = 503"
    by (simp add: run_defs ex_defs)
  from a b
    ZapLogger_healthz[of ex_externals ex_Clock "Some ''logs''" "respond 200 [''ok'']" ?c "[]"]
    ZapLogger_healthz[of ex_externals ex_Clock None "respond 503 [''down'']" ?c "[]"]
  show ?thesis by simp
qed


text \<open>
  The claim as stated fails for requests that are not served: a protocol-upgrade request
  to "/healthz" answered with status 101 has its handler called and logs no line, and a
  request to "/healthz" whose body cannot be read is returned with the read error, its
  handler not called and no line logged.
\<close>

theorem ZapLogger_healthz_counterexample:
  "c_Path (final_context (ZapLogger ex_externals ex_Clock None (respond 101 [])
       (ex_context ''/healthz'' upgrade_header no_header (ReadCloser [] EOF)))) = ''/healthz''
   \<and> res_Status (c_Response (final_context (ZapLogger ex_externals ex_Clock None (respond 101 [])
       (ex_context ''/healthz'' upgrade_header no_header (ReadCloser [] EOF))))) = 101
   \<and> length (invoked (ZapLogger ex_externals ex_Clock None (respond 101 [])
       (ex_context ''/healthz'' upgrade_header no_header (ReadCloser [] EOF)))) = 1
   \<and> length (fst (snd (ZapLogger_run ex_externals ex_Clock None (respond 101 [])
       (ex_context ''/healthz'' upgrade_header no_header (ReadCloser [] EOF))))) \<noteq> 1
   \<and> returned (ZapLogger ex_externals ex_Clock None (respond 503 [])
       (ex_context ''/healthz'' no_header no_header (ReadCloser [''par''] ''unexpected EOF'')))
      = Some ''unexpected EOF''
   \<and> invoked (ZapLogger ex_externals ex_Clock None (respond 503 [])
       (ex_context ''/healthz'' no_header no_header (ReadCloser [''par''] ''unexpected EOF''))) = []
   \<and> length (fst (snd (ZapLogger_run ex_externals ex_Clock None (respond 503 [])
       (ex_context ''/healthz'' no_header no_header (ReadCloser [''par''] ''unexpected EOF'')))))
      \<noteq> 1"
  by (simp add: run_defs ex_defs)

subsection \<open>Protocol upgrades\<close>

text \<open>
  C6, as the code has it. For a protocol-upgrade request the middleware calls the next
  handler once, with the context as it received it (no body is read, no writer is
  wrapped), returns what the handler returns, and neither logs a line nor starts
  persistence: the whole run logs nothing and hands nothing to the store.
\<close>

theorem ZapLogger_upgrade_passthrough:
  "IsWebSocketUpgrade ext (req_Header (c_Request c)) \<longrightarrow>
     ZapLogger ext clk collection next c =
       \<lparr>returned = fst (next c), final_context = snd (next c), logged = [], spawned = [],
        invoked = [c]\<rparr>
     \<and> snd (ZapLogger_run ext clk collection next c) = ([], [])"
  by (simp add: ZapLogger_upgrade ZapLogger_run_def)

theorem ZapLogger_upgrade_passthrough_witness:
  "IsWebSocketUpgrade ex_externals
     (req_Header (c_Request (ex_context ''/ws'' upgrade_header no_header (ReadCloser [''x''] EOF))))
   \<and> invoked (ZapLogger ex_externals ex_Clock (Some ''logs'') (respond 101 [])
        (ex_context ''/ws'' upgrade_header no_header (ReadCloser [''x''] EOF)))
      = [ex_context ''/ws'' upgrade_header no_header (ReadCloser [''x''] EOF)]
   \<and> snd (ZapLogger_run ex_externals ex_Clock (Some ''logs'') (respond 101 [])
        (ex_context ''/ws'' upgrade_header no_header (ReadCloser [''x''] EOF))) = ([], [])"
proof -
  let ?c = "ex_context ''/ws'' upgrade_header no_header (ReadCloser [''x''] EOF)"
  have u: "IsWebSocketUpgrade ex_externals (req_Header (c_Request ?c))"
    by (simp add: ex_defs)
  from u ZapLogger_upgrade_passthrough[of ex_externals ?c ex_Clock "Some ''logs''" "respond 101 []"]
  show ?thesis by simp
qed

text \<open>
  The claim as stated fails: an upgrade request to "/ws" answered with status 101 is not
  under the health-check rule, the handler is called, and the run logs no line, not one.
\<close>

theorem ZapLogger_upgrade_counterexample:
  "IsWebSocketUpgrade ex_externals
     (req_Header (c_Request (ex_context ''/ws'' upgrade_header no_header (ReadCloser [] EOF))))
   \<and> c_Path (final_context (ZapLogger ex_externals ex_Clock None (respond 101 [])
        (ex_context ''/ws'' upgrade_header no_header (ReadCloser [] EOF)))) = ''/ws''
   \<and> res_Status (c_Response (final_context (ZapLogger ex_externals ex_Clock None (respond 101 [])
        (ex_context ''/ws'' upgrade_header no_header (ReadCloser [] EOF))))) = 101
   \<and> length (invoked (ZapLogger ex_externals ex_Clock None (respond 101 [])
        (ex_context ''/ws'' upgrade_header no_header (ReadCloser [] EOF)))) = 1
   \<and> length (fst (snd (ZapLogger_run ex_externals ex_Clock None (respond 101 [])
        (ex_context ''/ws'' upgrade_header no_header (ReadCloser [] EOF))))) = 0
   \<and> length (fst (snd (ZapLogger_run ex_externals ex_Clock None (respond 101 [])
        (ex_context ''/ws'' upgrade_header no_header (ReadCloser [] EOF))))) \<noteq> 1"
  by (simp add: run_defs ex_defs)

subsection \<open>Persistence\<close>

lemma ZapLogger_InsertOne_update:
  "ZapLogger (ext\<lparr>InsertOne := ins\<rparr>) clk collection next c = ZapLogger ext clk collection next c"
proof -
  have f: "ZapLogger_fields (ext\<lparr>InsertOne := ins\<rparr>) = ZapLogger_fields ext"
    by (intro ext) (simp add: ZapLogger_fields_def)
  have n: "call_next (ext\<lparr>InsertOne := ins\<rparr>) = call_next ext"
    by (intro ext) (simp add: call_next_def split: prod.splits option.splits)
  show ?thesis
    by (simp add: ZapLogger_def f n Let_def split: prod.splits sum.splits)
qed

text \<open>
  C7. For a served request (no protocol upgrade, body read without error) that the
  health-check rule does not suppress, with a collection configured: the middleware logs
  its one line and starts one goroutine; the run hands exactly one document to the store,
  once; when the store returns an error (also a passed deadline), the log is the request's
  line followed by exactly one line at error level that carries this error, and otherwise
  the request's line alone. What the middleware returns, the context it leaves and the
  line it logged do not depend on the store's answer. With a nil collection no goroutine
  is started, nothing is handed to the store and the log is the middleware's own.
\<close>

theorem ZapLogger_store_failure:
  "(\<not> IsWebSocketUpgrade ext (req_Header (c_Request c)) \<and>
    fst (readAndResetBody (c_Request c)) = Inr b \<and>
    \<not> (c_Path (final_context (ZapLogger ext clk (Some cl) next c)) = ''/healthz'' \<and>
       res_Status (c_Response (final_context (ZapLogger ext clk (Some cl) next c))) = 200) \<longrightarrow>
    (\<exists>fs line.
       spawned (ZapLogger ext clk (Some cl) next c) = [fs] \<and>
       logged (ZapLogger ext clk (Some cl) next c) = [line] \<and>
       returned (ZapLogger ext clk (Some cl) next c) = None \<and>
       snd (snd (ZapLogger_run ext clk (Some cl) next c)) = [zapFieldsToMap ext fs] \<and>
       fst (snd (ZapLogger_run ext clk (Some cl) next c)) =
         (case InsertOne ext cl (zapFieldsToMap ext fs) of
            Some e \<Rightarrow> [line, log_Error ''Error while inserting log to mongo'' [zap_Error e]]
          | None \<Rightarrow> [line])))
   \<and> fst (ZapLogger_run ext clk collection next c) = ZapLogger ext clk collection next c
   \<and> ZapLogger (ext\<lparr>InsertOne := ins\<rparr>) clk collection next c = ZapLogger ext clk collection next c
   \<and> spawned (ZapLogger ext clk None next c) = []
   \<and> snd (ZapLogger_run ext clk None next c) = (logged (ZapLogger ext clk None next c), [])"
proof (intro conjI impI)
  assume h: "\<not> IsWebSocketUpgrade ext (req_Header (c_Request c)) \<and>
    fst (readAndResetBody (c_Request c)) = Inr b \<and>
    \<not> (c_Path (final_context (ZapLogger ext clk (Some cl) next c)) = ''/healthz'' \<and>
       res_Status (c_Response (final_context (ZapLogger ext clk (Some cl) next c))) = 200)"
  then obtain req where r: "readAndResetBody (c_Request c) = (Inr b, req)"
    by (cases "readAndResetBody (c_Request c)") auto
  from h have u: "\<not> IsWebSocketUpgrade ext (req_Header (c_Request c))" by simp
  from h show "\<exists>fs line.
       spawned (ZapLogger ext clk (Some cl) next c) = [fs] \<and>
       logged (ZapLogger ext clk (Some cl) next c) = [line] \<and>
       returned (ZapLogger ext clk (Some cl) next c) = None \<and>
       snd (snd (ZapLogger_run ext clk (Some cl) next c)) = [zapFieldsToMap ext fs] \<and>
       fst (snd (ZapLogger_run ext clk (Some cl) next c)) =
         (case InsertOne ext cl (zapFieldsToMap ext fs) of
            Some e \<Rightarrow> [line, log_Error ''Error while inserting log to mongo'' [zap_Error e]]
          | None \<Rightarrow> [line])"
    by (simp add: ZapLogger_run_def ZapLogger_served[OF u r] Let_def persist_def
        mongoInsertFunc_def split: if_splits option.splits)
next
  show "fst (ZapLogger_run ext clk collection next c) = ZapLogger ext clk collection next c"
    by (simp add: ZapLogger_run_def Let_def)
  show "ZapLogger (ext\<lparr>InsertOne := ins\<rparr>) clk collection next c
          = ZapLogger ext clk collection next c"
    by (rule ZapLogger_InsertOne_update)
  show nil: "spawned (ZapLogger ext clk None next c) = []"
    by (cases rule: ZapLogger_branches[of ext c])
       (simp_all add: ZapLogger_upgrade ZapLogger_read_error ZapLogger_served Let_def)
  show "snd (ZapLogger_run ext clk None next c) = (logged (ZapLogger ext clk None next c), [])"
    using nil by (simp add: ZapLogger_run_def Let_def)
qed


theorem ZapLogger_store_failure_witness:
  "\<not> IsWebSocketUpgrade ex_externals
       (req_Header (c_Request (ex_context ''/test/123'' no_header no_header (ReadCloser [''body''] EOF))))
   \<and> fst (readAndResetBody
         (c_Request (ex_context ''/test/123'' no_header no_header (ReadCloser [''body''] EOF))))
       = Inr ''body''
   \<and> res_Status (c_Response (final_context (ZapLogger ex_externals ex_Clock (Some ''logs'')
         (respond 500 [''boom''])
         (ex_context ''/test/123'' no_header no_header (ReadCloser [''body''] EOF))))) = 500
   \<and> (\<exists>line. fst (snd (ZapLogger_run ex_externals ex_Clock (Some ''logs'') (respond 500 [''boom''])
         (ex_context ''/test/123'' no_header no_header (ReadCloser [''body''] EOF))))
       = [line, log_Error ''Error while inserting log to mongo'' [zap_Error ''insert failed'']])
   \<and> length (snd (snd (ZapLogger_run ex_externals ex_Clock (Some ''logs'') (respond 500 [''boom''])
         (ex_context ''/test/123'' no_header no_header (ReadCloser [''body''] EOF))))) = 1"
proof -
  let ?c = "ex_context ''/test/123'' no_header no_header (ReadCloser [''body''] EOF)"
  have h: "\<not> IsWebSocketUpgrade ex_externals (req_Header (c_Request ?c))
         \<and> fst (readAndResetBody (c_Request ?c)) = Inr ''body''
         \<and> res_Status (c_Response (final_context (ZapLogger ex_externals ex_Clock (Some ''logs'')
             (respond 500 [''boom'']) ?c))) = 500"
    by (simp add: run_defs ex_defs)
  have i: "InsertOne ex_externals ''logs'' d = Some ''insert failed''" for d
    by (simp add: ex_externals_def)
  from h
    ZapLogger_store_failure[of ex_externals ?c "''body''" ex_Clock "''logs''"
      "respond 500 [''boom'']" None "InsertOne ex_externals", THEN conjunct1]
  obtain fs line where
    "snd (snd (ZapLogger_run ex_externals ex_Clock (Some ''logs'') (respond 500 [''boom'']) ?c))
       = [zapFieldsToMap ex_externals fs]"
    and "fst (snd (ZapLogger_run ex_externals ex_Clock (Some ''logs'') (respond 500 [''boom'']) ?c))
       = (case InsertOne ex_externals ''logs'' (zapFieldsToMap ex_externals fs) of
            Some e \<Rightarrow> [line, log_Error ''Error while inserting log to mongo'' [zap_Error e]]
          | None \<Rightarrow> [line])"
    by auto
  with h i show ?thesis by simp
qed


subsection \<open>The response tee\<close>

















subsection \<open>The body-dump helper\<close>

lemma ReplaceAll_empty: "ReplaceAll s c [] = filter (\<lambda>x. x \<noteq> c) s"
  by (induction s) auto

lemma sanitize_filter:
  "ReplaceAll (ReplaceAll (ReplaceAll b (CHR 0x0A) []) (CHR 0x0D) []) (CHR 0x09) []
     = filter (\<lambda>x. x \<notin> {CHR 0x0A, CHR 0x0D, CHR 0x09}) b"
  by (induction b) (auto simp add: ReplaceAll_empty)

text \<open>
  C9. \<open>BodyDump\<close> logs nothing exactly when \<open>ENVIRONMENT\<close> is "production" or the path is
  "/healthz", whatever the status. Otherwise it logs exactly one line, "Body dump: "
  followed by the JSON of the model, whose request and response fields are the two bodies
  with every newline, carriage return and tab taken out and every other byte kept, in
  order. The body \<open>{\n\t"a":1\r\n}\<close> is logged as \<open>{"a":1}\<close>.
\<close>

theorem BodyDump_policy:
  "BodyDump ext marshal c reqBody resBody =
     (if ENVIRONMENT ext = ''production'' \<or> c_Path c = ''/healthz'' then []
      else [log_Info (''Body dump: '' @ marshal
              \<lparr>Host = req_Host (c_Request c), Path = c_Path c, Method = req_Method (c_Request c),
               RemoteAddress = req_RemoteAddr (c_Request c),
               Header = fmt_Header ext (req_Header (c_Request c)),
               Status = res_Status (c_Response c),
               Request = filter (\<lambda>x. x \<notin> {CHR 0x0A, CHR 0x0D, CHR 0x09}) reqBody,
               Response = filter (\<lambda>x. x \<notin> {CHR 0x0A, CHR 0x0D, CHR 0x09}) resBody\<rparr>) []])
   \<and> BodyDump ex_externals Request (ex_context ''/api'' no_header no_header (ReadCloser [] EOF))
        [CHR ''{'', CHR 0x0A, CHR 0x09, CHR 0x22, CHR ''a'', CHR 0x22, CHR '':'', CHR ''1'',
         CHR 0x0D, CHR 0x0A, CHR ''}''] []
      = [log_Info (''Body dump: '' @ [CHR ''{'', CHR 0x22, CHR ''a'', CHR 0x22, CHR '':'', CHR ''1'',
           CHR ''}'']) []]"
proof (intro conjI)
  show "BodyDump ext marshal c reqBody resBody =
     (if ENVIRONMENT ext = ''production'' \<or> c_Path c = ''/healthz'' then []
      else [log_Info (''Body dump: '' @ marshal
              \<lparr>Host = req_Host (c_Request c), Path = c_Path c, Method = req_Method (c_Request c),
               RemoteAddress = req_RemoteAddr (c_Request c),
               Header = fmt_Header ext (req_Header (c_Request c)),
               Status = res_Status (c_Response c),
               Request = filter (\<lambda>x. x \<notin> {CHR 0x0A, CHR 0x0D, CHR 0x09}) reqBody,
               Response = filter (\<lambda>x. x \<notin> {CHR 0x0A, CHR 0x0D, CHR 0x09}) resBody\<rparr>) []])"
    unfolding BodyDump_def Let_def sanitize_filter by simp
  show "BodyDump ex_externals Request (ex_context ''/api'' no_header no_header (ReadCloser [] EOF))
        [CHR ''{'', CHR 0x0A, CHR 0x09, CHR 0x22, CHR ''a'', CHR 0x22, CHR '':'', CHR ''1'',
         CHR 0x0D, CHR 0x0A, CHR ''}''] []
      = [log_Info (''Body dump: '' @ [CHR ''{'', CHR 0x22, CHR ''a'', CHR 0x22, CHR '':'', CHR ''1'',
           CHR ''}'']) []]"
    by (simp add: BodyDump_def ex_defs)
qed


subsection \<open>Logger and identifiers in the context\<close>

lemmas key_defs = loggerContextKey_def traceIDContextKey_def spanIDContextKey_def
  requestIDContextKey_def

lemmas accessor_defs = GetLogger_def GetLoggerFromContext_def GetTraceID_def
  GetTraceIDFromContext_def GetSpanID_def GetSpanIDFromContext_def GetRequestID_def
  GetRequestIDFromContext_def Value_def

lemma hex_String_length: "length (hex_String k w) = k"
  by (simp add: hex_String_def)

lemma TraceID_String_nonempty: "TraceID_String t \<noteq> []"
  using hex_String_length[of 32 t] by (auto simp add: TraceID_String_def)

lemma SpanID_String_nonempty: "SpanID_String t \<noteq> []"
  using hex_String_length[of 16 t] by (auto simp add: SpanID_String_def)

lemma LoggerWithContext_next:
  "LoggerWithContext ext next c = next (snd (LoggerWithContext ext observe c))"
  by (simp add: LoggerWithContext_def observe_def Let_def)

lemma OtelLoggerMiddleware_next:
  "OtelLoggerMiddleware next c = next (snd (OtelLoggerMiddleware observe c))"
  by (simp add: OtelLoggerMiddleware_def observe_def Let_def)

lemma LoggerWithContext_bound:
  "c_store (snd (LoggerWithContext ext observe c)) traceIDContextKey
     = ctx_values (req_Context (c_Request (snd (LoggerWithContext ext observe c)))) traceIDContextKey
   \<and> c_store (snd (LoggerWithContext ext observe c)) spanIDContextKey
     = ctx_values (req_Context (c_Request (snd (LoggerWithContext ext observe c)))) spanIDContextKey
   \<and> c_store (snd (LoggerWithContext ext observe c)) requestIDContextKey
     = ctx_values (req_Context (c_Request (snd (LoggerWithContext ext observe c)))) requestIDContextKey
   \<and> c_store (snd (LoggerWithContext ext observe c)) loggerContextKey
     = ctx_values (req_Context (c_Request (snd (LoggerWithContext ext observe c)))) loggerContextKey"
  by (simp add: LoggerWithContext_def observe_def Let_def Set_def WithValue_def
      SetRequestContext_def key_defs)

lemma LoggerWithContext_ids:
  "GetTraceID (snd (LoggerWithContext ext observe c))
     = (if IsValid (span_SpanContext (SpanFromContext (req_Context (c_Request c))))
        then TraceID_String (TraceID (span_SpanContext (SpanFromContext (req_Context (c_Request c)))))
        else [])
   \<and> GetSpanID (snd (LoggerWithContext ext observe c))
     = (if IsValid (span_SpanContext (SpanFromContext (req_Context (c_Request c))))
        then SpanID_String (SpanID (span_SpanContext (SpanFromContext (req_Context (c_Request c)))))
        else [])
   \<and> GetRequestID (snd (LoggerWithContext ext observe c))
     = (if Get (res_Header (c_Response c)) HeaderXRequestID = []
        then Get (req_Header (c_Request c)) HeaderXRequestID
        else Get (res_Header (c_Response c)) HeaderXRequestID)"
  by (simp add: LoggerWithContext_def observe_def Let_def Set_def WithValue_def
      SetRequestContext_def key_defs accessor_defs)

text \<open>
  C8. \<open>LoggerWithContext\<close> calls the next handler with a context in which each accessor
  on the echo context and its twin on the Go context return the same value (trace ID,
  span ID, request ID and logger). Without a valid span the trace and span IDs are empty
  on both paths; with a valid span they are the hexadecimal IDs of the span and are not
  empty. On a context where nothing is bound under a key, the ID accessors return the
  empty string and the logger accessors return the global logger.
\<close>

theorem LoggerWithContext_accessors:
  "LoggerWithContext ext next c = next (snd (LoggerWithContext ext observe c))
   \<and> GetTraceID (snd (LoggerWithContext ext observe c))
       = GetTraceIDFromContext (req_Context (c_Request (snd (LoggerWithContext ext observe c))))
   \<and> GetSpanID (snd (LoggerWithContext ext observe c))
       = GetSpanIDFromContext (req_Context (c_Request (snd (LoggerWithContext ext observe c))))
   \<and> GetRequestID (snd (LoggerWithContext ext observe c))
       = GetRequestIDFromContext (req_Context (c_Request (snd (LoggerWithContext ext observe c))))
   \<and> GetLogger ext (snd (LoggerWithContext ext observe c))
       = GetLoggerFromContext ext (req_Context (c_Request (snd (LoggerWithContext ext observe c))))
   \<and> (\<not> IsValid (span_SpanContext (SpanFromContext (req_Context (c_Request c)))) \<longrightarrow>
        GetTraceID (snd (LoggerWithContext ext observe c)) = []
        \<and> GetSpanID (snd (LoggerWithContext ext observe c)) = []
        \<and> GetTraceIDFromContext (req_Context (c_Request (snd (LoggerWithContext ext observe c)))) = []
        \<and> GetSpanIDFromContext (req_Context (c_Request (snd (LoggerWithContext ext observe c)))) = [])
   \<and> (IsValid (span_SpanContext (SpanFromContext (req_Context (c_Request c)))) \<longrightarrow>
        GetTraceID (snd (LoggerWithContext ext observe c))
          = TraceID_String (TraceID (span_SpanContext (SpanFromContext (req_Context (c_Request c)))))
        \<and> GetSpanID (snd (LoggerWithContext ext observe c))
          = SpanID_String (SpanID (span_SpanContext (SpanFromContext (req_Context (c_Request c)))))
        \<and> GetTraceID (snd (LoggerWithContext ext observe c)) \<noteq> []
        \<and> GetSpanID (snd (LoggerWithContext ext observe c)) \<noteq> [])
   \<and> (c_store c0 traceIDContextKey = None \<longrightarrow> GetTraceID c0 = [])
   \<and> (c_store c0 spanIDContextKey = None \<longrightarrow> GetSpanID c0 = [])
   \<and> (c_store c0 requestIDContextKey = None \<longrightarrow> GetRequestID c0 = [])
   \<and> (c_store c0 loggerContextKey = None \<longrightarrow> GetLogger ext c0 = zap_S ext)
   \<and> (Value ctx0 traceIDContextKey = None \<longrightarrow> GetTraceIDFromContext ctx0 = [])
   \<and> (Value ctx0 spanIDContextKey = None \<longrightarrow> GetSpanIDFromContext ctx0 = [])
   \<and> (Value ctx0 requestIDContextKey = None \<longrightarrow> GetRequestIDFromContext ctx0 = [])
   \<and> (Value ctx0 loggerContextKey = None \<longrightarrow> GetLoggerFromContext ext ctx0 = zap_S ext)"
proof -
  let ?c = "snd (LoggerWithContext ext observe c)"
  have twins: "GetTraceID ?c = GetTraceIDFromContext (req_Context (c_Request ?c))
     \<and> GetSpanID ?c = GetSpanIDFromContext (req_Context (c_Request ?c))
     \<and> GetRequestID ?c = GetRequestIDFromContext (req_Context (c_Request ?c))
     \<and> GetLogger ext ?c = GetLoggerFromContext ext (req_Context (c_Request ?c))"
    using LoggerWithContext_bound[of ext c] by (simp add: accessor_defs)
  have unbound: "(c_store c0 traceIDContextKey = None \<longrightarrow> GetTraceID c0 = [])
   \<and> (c_store c0 spanIDContextKey = None \<longrightarrow> GetSpanID c0 = [])
   \<and> (c_store c0 requestIDContextKey = None \<longrightarrow> GetRequestID c0 = [])
   \<and> (c_store c0 loggerContextKey = None \<longrightarrow> GetLogger ext c0 = zap_S ext)
   \<and> (Value ctx0 traceIDContextKey = None \<longrightarrow> GetTraceIDFromContext ctx0 = [])
   \<and> (Value ctx0 spanIDContextKey = None \<longrightarrow> GetSpanIDFromContext ctx0 = [])
   \<and> (Value ctx0 requestIDContextKey = None \<longrightarrow> GetRequestIDFromContext ctx0 = [])
   \<and> (Value ctx0 loggerContextKey = None \<longrightarrow> GetLoggerFromContext ext ctx0 = zap_S ext)"
    by (simp add: accessor_defs)
  let ?sc = "span_SpanContext (SpanFromContext (req_Context (c_Request c)))"
  have inv: "\<not> IsValid ?sc \<Longrightarrow>
      GetTraceID ?c = [] \<and> GetSpanID ?c = []
      \<and> GetTraceIDFromContext (req_Context (c_Request ?c)) = []
      \<and> GetSpanIDFromContext (req_Context (c_Request ?c)) = []"
    using LoggerWithContext_ids[of ext c] twins by simp
  have val: "IsValid ?sc \<Longrightarrow>
      GetTraceID ?c = TraceID_String (TraceID ?sc) \<and> GetSpanID ?c = SpanID_String (SpanID ?sc)
      \<and> GetTraceID ?c \<noteq> [] \<and> GetSpanID ?c \<noteq> []"
    using LoggerWithContext_ids[of ext c]
    by (simp add: TraceID_String_nonempty SpanID_String_nonempty)
  from twins unbound inv val LoggerWithContext_next[of ext "next" c]
  show ?thesis by blast
qed


theorem LoggerWithContext_accessors_witness:
  "IsValid (span_SpanContext (SpanFromContext
      (req_Context (c_Request (ex_span_context no_header (request_id_header ''resp-id''))))))
   \<and> GetTraceID (snd (LoggerWithContext ex_externals observe
        (ex_span_context no_header (request_id_header ''resp-id''))))
       = ''01020304050607080807060504030201''
   \<and> GetSpanID (snd (LoggerWithContext ex_externals observe
        (ex_span_context no_header (request_id_header ''resp-id''))))
       = ''0102030405060708''
   \<and> \<not> IsValid (span_SpanContext (SpanFromContext
        (req_Context (c_Request (ex_context ''/resource'' no_header no_header (ReadCloser [] EOF))))))
   \<and> GetTraceID (snd (LoggerWithContext ex_externals observe
        (ex_context ''/resource'' no_header no_header (ReadCloser [] EOF)))) = []
   \<and> GetSpanIDFromContext (req_Context (c_Request (snd (LoggerWithContext ex_externals observe
        (ex_context ''/resource'' no_header no_header (ReadCloser [] EOF)))))) = []
   \<and> c_store (ex_context ''/'' no_header no_header (ReadCloser [] EOF)) loggerContextKey = None
   \<and> GetLogger ex_externals (ex_context ''/'' no_header no_header (ReadCloser [] EOF))
       = zap_S ex_externals
   \<and> Value \<lparr>ctx_values = Map.empty, ctx_span = None\<rparr> requestIDContextKey = None
   \<and> GetRequestIDFromContext \<lparr>ctx_values = Map.empty, ctx_span = None\<rparr> = []"
proof -
  let ?v = "ex_span_context no_header (request_id_header ''resp-id'')"
  let ?n = "ex_context ''/resource'' no_header no_header (ReadCloser [] EOF)"
  let ?c0 = "ex_context ''/'' no_header no_header (ReadCloser [] EOF)"
  let ?ctx0 = "\<lparr>ctx_values = Map.empty, ctx_span = None\<rparr>"
  have sc: "span_SpanContext (SpanFromContext (req_Context (c_Request ?v))) = ex_SpanContext"
    by (simp add: ex_span_context_def SpanFromContext_def)
  have v: "IsValid (span_SpanContext (SpanFromContext (req_Context (c_Request ?v))))"
    unfolding sc by (simp add: IsValid_def ex_SpanContext_def)
  have n: "\<not> IsValid (span_SpanContext (SpanFromContext (req_Context (c_Request ?n))))"
    by (simp add: ex_context_def SpanFromContext_def noopSpan_def IsValid_def)
  have u: "c_store ?c0 loggerContextKey = None \<and> Value ?ctx0 requestIDContextKey = None"
    by (simp add: ex_context_def Value_def)
  have t: "TraceID_String (TraceID ex_SpanContext) = ''01020304050607080807060504030201''"
    by code_simp
  have s: "SpanID_String (SpanID ex_SpanContext) = ''0102030405060708''"
    by code_simp
  note V = LoggerWithContext_accessors[of ex_externals observe ?v ?c0 ?ctx0]
  note N = LoggerWithContext_accessors[of ex_externals observe ?n ?c0 ?ctx0]
  from V v have "GetTraceID (snd (LoggerWithContext ex_externals observe ?v))
        = TraceID_String (TraceID (span_SpanContext (SpanFromContext (req_Context (c_Request ?v)))))
      \<and> GetSpanID (snd (LoggerWithContext ex_externals observe ?v))
        = SpanID_String (SpanID (span_SpanContext (SpanFromContext (req_Context (c_Request ?v)))))"
    by blast
  then have 1: "GetTraceID (snd (LoggerWithContext ex_externals observe ?v))
        = ''01020304050607080807060504030201''
      \<and> GetSpanID (snd (LoggerWithContext ex_externals observe ?v)) = ''0102030405060708''"
    by (simp only: sc t s)
  from N n have 2: "GetTraceID (snd (LoggerWithContext ex_externals observe ?n)) = []
      \<and> GetSpanIDFromContext (req_Context (c_Request (snd (LoggerWithContext ex_externals observe ?n))))
          = []"
    by blast
  from V u have 3: "GetLogger ex_externals ?c0 = zap_S ex_externals
      \<and> GetRequestIDFromContext ?ctx0 = []"
    by simp
  from v n u 1 2 3 show ?thesis by simp
qed

subsection \<open>Request-ID resolution\<close>








subsection \<open>The stored document\<close>















end
